theory Spec2Isabelle
  imports Complex_Main
begin

section \<open>Exceptions\<close>

text \<open>
  Every \<^verbatim>\<open>raise\<close> of the modelled functions is a value of \<open>error\<close>. A function that
  commits once, at its end, returns \<open>error + db\<close>: an exception leaves nothing written,
  so the store after \<open>Inl e\<close> is the store before the call (\<open>store_after\<close> below).
  \<^verbatim>\<open>create_entity\<close> and \<^verbatim>\<open>update_entity\<close> commit several times, so they return the exception,
  if any, together with the store as the last commit left it.
\<close>

datatype error =
    ValueError string
  | AttributeError
  | HTTPStatusError nat
  | JSONDecodeError
  | KeyError string
  | IntegrityError

section \<open>Python and SQLite text helpers\<close>

definition digit_char :: "nat \<Rightarrow> char" where
  "digit_char d = ''0123456789'' ! d"

function str_nat :: "nat \<Rightarrow> string" where
  "str_nat n = (if n < 10 then [digit_char n] else str_nat (n div 10) @ [digit_char (n mod 10)])"
  by pat_completeness auto
termination
  by (relation "measure id") auto

declare str_nat.simps [simp del]

text \<open>Python's \<^verbatim>\<open>str(i)\<close> for an integer: its decimal digits, with a leading minus sign.\<close>

definition str :: "int \<Rightarrow> string" where
  "str i = (if i < 0 then CHR ''-'' # str_nat (nat (- i)) else str_nat (nat i))"

text \<open>
  SQLite compares two TEXT values byte by byte (the BINARY collation), the shorter one
  first when it is a prefix of the other. \<open>text_between\<close> is SQL's
  \<^verbatim>\<open>x BETWEEN lo AND hi\<close> on TEXT operands.
\<close>

fun text_le :: "string \<Rightarrow> string \<Rightarrow> bool" where
  "text_le [] ys = True"
| "text_le (x # xs) [] = False"
| "text_le (x # xs) (y # ys) =
     (if x = y then text_le xs ys else (of_char x :: nat) < of_char y)"

definition text_between :: "string \<Rightarrow> string \<Rightarrow> string \<Rightarrow> bool" where
  "text_between x lo hi = (text_le lo x \<and> text_le x hi)"

section \<open>embedding.py\<close>

text \<open>
  The fields of \<^verbatim>\<open>settings.embedding\<close> (config.py, \<^verbatim>\<open>EmbeddingSettings\<close>) that the modelled
  functions read.
\<close>

record EmbeddingSettings =
  embedding_endpoint :: string
  embedding_model :: string
  embedding_use_local :: bool

text \<open>
  The arithmetic is that of numpy and of Python, in binary floating point. The model does
  not compute with it: every library operation the code calls on a number is a field of
  \<open>numerics\<close>, over a type \<open>'f\<close> of numpy scalars (float32 here) and a type \<open>'d\<close> of Python
  numbers. The fields are, for one row of the batch, \<^verbatim>\<open>np.linalg.norm(row, ord=2)\<close>; the
  test \<^verbatim>\<open>norm == 0\<close>; the \<^verbatim>\<open>1\<close> stored in its place; the element-wise \<^verbatim>\<open>x / norm\<close>; the
  conversion of \<^verbatim>\<open>tolist()\<close>; and \<^verbatim>\<open>round(float(x), ndigits)\<close>.
\<close>

record ('f, 'd) numerics =
  np_linalg_norm :: "'f list \<Rightarrow> 'f"
  np_is_zero :: "'f \<Rightarrow> bool"
  np_one :: 'f
  np_divide :: "'f \<Rightarrow> 'f \<Rightarrow> 'f"
  np_tolist :: "'f \<Rightarrow> 'd"
  py_round :: "'d \<Rightarrow> nat \<Rightarrow> 'd"

text \<open>\<open>encoder\<close> is \<^verbatim>\<open>model.encode\<close> followed by \<^verbatim>\<open>.cpu().numpy()\<close>, one row per text.\<close>

type_synonym 'f encoder = "string list \<Rightarrow> 'f list list"

record payload =
  payload_model :: string
  payload_input :: "string list"

text \<open>
  What \<^verbatim>\<open>response.json()\<close> and \<^verbatim>\<open>result["embeddings"]\<close> make of a response body: the body
  is not JSON, it is JSON without the key, or it holds the vectors.
\<close>

datatype 'd response_body =
    Not_json
  | Json_without_embeddings
  | Json_embeddings "'d list list"

text \<open>
  The outcome of \<^verbatim>\<open>client.post\<close> (the httpx library, outside this repository): it raises
  \<^verbatim>\<open>httpx.RequestError\<close> (transport errors, time-outs, too many redirects), or returns a
  response with a status code.
\<close>

datatype 'd http_reply =
    RequestError_raised
  | Response nat "'d response_body"

text \<open>
  \<^verbatim>\<open>response.raise_for_status()\<close> raises \<^verbatim>\<open>httpx.HTTPStatusError\<close> for a status outside
  200..299. \<^verbatim>\<open>HTTPStatusError\<close> is a sibling of \<^verbatim>\<open>RequestError\<close> under \<^verbatim>\<open>httpx.HTTPError\<close>,
  so the handler \<^verbatim>\<open>except httpx.RequestError\<close> does not catch it; neither does it catch
  the errors of \<^verbatim>\<open>response.json()\<close> and of the key lookup.
\<close>

definition get_remote_embeddings ::
  "EmbeddingSettings \<Rightarrow> (string \<Rightarrow> payload \<Rightarrow> 'd http_reply) \<Rightarrow> string list
     \<Rightarrow> error + 'd list list" where
  "get_remote_embeddings settings client_post texts =
     (let payload = \<lparr>payload_model = embedding_model settings, payload_input = texts\<rparr>
      in case client_post (embedding_endpoint settings) payload of
           RequestError_raised \<Rightarrow> Inr []
         | Response status body \<Rightarrow>
             if \<not> (200 \<le> status \<and> status < 300) then Inl (HTTPStatusError status)
             else (case body of
                     Not_json \<Rightarrow> Inl JSONDecodeError
                   | Json_without_embeddings \<Rightarrow> Inl (KeyError ''embeddings'')
                   | Json_embeddings embeddings \<Rightarrow> Inr embeddings))"

text \<open>
  The global \<^verbatim>\<open>model\<close> is passed in and returned: \<open>None\<close> before the first call, after
  which it holds the encoder that \<^verbatim>\<open>init_embedding_model\<close> loaded. The normalization works
  on the whole batch, as the code does: the norms of all rows, then \<^verbatim>\<open>norms[norms == 0] = 1\<close>,
  then the division of every row by its entry of \<^verbatim>\<open>norms\<close>, then \<^verbatim>\<open>tolist()\<close>.
\<close>

definition generate_embeddings ::
  "('f, 'd) numerics \<Rightarrow> 'f encoder \<Rightarrow> 'f encoder option \<Rightarrow> string list
     \<Rightarrow> 'd list list \<times> 'f encoder option" where
  "generate_embeddings num init_embedding_model model texts =
     (let model' = (case model of None \<Rightarrow> init_embedding_model | Some m \<Rightarrow> m)
      in if texts = [] then ([], Some model')
         else
           (let embeddings = model' texts;
                norms = map (np_linalg_norm num) embeddings;
                norms' = map (\<lambda>n. if np_is_zero num n then np_one num else n) norms;
                embeddings' = map (\<lambda>(row, n). map (\<lambda>x. np_divide num x n) row)
                                (zip embeddings norms')
            in (map (map (np_tolist num)) embeddings', Some model')))"

text \<open>\<^verbatim>\<open>[[round(float(x), 5) for x in embedding] for embedding in embeddings]\<close>\<close>

definition round_rows :: "('f, 'd) numerics \<Rightarrow> 'd list list \<Rightarrow> 'd list list" where
  "round_rows num embeddings = map (map (\<lambda>x. py_round num x 5)) embeddings"

definition get_embeddings ::
  "('f, 'd) numerics \<Rightarrow> EmbeddingSettings \<Rightarrow> (string \<Rightarrow> payload \<Rightarrow> 'd http_reply)
     \<Rightarrow> 'f encoder \<Rightarrow> 'f encoder option \<Rightarrow> string list
     \<Rightarrow> (error + 'd list list) \<times> 'f encoder option" where
  "get_embeddings num settings client_post init_embedding_model model texts =
     (let (embeddings, model') =
            (if embedding_use_local settings
             then (case generate_embeddings num init_embedding_model model texts of
                     (es, m) \<Rightarrow> (Inr es, m))
             else (get_remote_embeddings settings client_post texts, model))
      in case embeddings of
           Inl e \<Rightarrow> (Inl e, model')
         | Inr es \<Rightarrow> (Inr (round_rows num es), model'))"

text \<open>
  Concrete environments for the examples below. \<open>exact_numerics\<close> computes exactly, on
  real numbers: the Euclidean norm, the quotient, and the nearest multiple of
  \<open>10 ^ - ndigits\<close> with a tie going to the even one. The examples use it only on binary
  fractions on which each of these operations is exact in binary floating point too
  (the rows (0, 0), (0, 2) and (32769/1048576, 2)), so there it is the arithmetic of the
  program.
\<close>

definition round_half_even :: "real \<Rightarrow> int" where
  "round_half_even y =
     (let f = \<lfloor>y\<rfloor>; d = y - of_int f
      in if d < 1 / 2 then f else if 1 / 2 < d then f + 1 else if even f then f else f + 1)"

definition exact_round :: "real \<Rightarrow> nat \<Rightarrow> real" where
  "exact_round x ndigits = of_int (round_half_even (x * 10 ^ ndigits)) / 10 ^ ndigits"

definition exact_norm :: "real list \<Rightarrow> real" where
  "exact_norm v = sqrt (sum_list (map (\<lambda>x. x ^ 2) v))"

definition exact_numerics :: "(real, real) numerics" where
  "exact_numerics =
     \<lparr>np_linalg_norm = exact_norm, np_is_zero = (\<lambda>n. n = 0), np_one = 1,
      np_divide = (\<lambda>x n. x / n), np_tolist = (\<lambda>x. x), py_round = exact_round\<rparr>"

definition remote_settings :: EmbeddingSettings where
  "remote_settings =
     \<lparr>embedding_endpoint = ''http://localhost:11434/v1/embeddings'',
      embedding_model = ''jinaai/jina-embeddings-v2-base-zh'',
      embedding_use_local = False\<rparr>"

definition local_settings :: EmbeddingSettings where
  "local_settings = remote_settings\<lparr>embedding_use_local := True\<rparr>"

definition post_unreachable :: "string \<Rightarrow> payload \<Rightarrow> real http_reply" where
  "post_unreachable url p = RequestError_raised"

definition post_status_500 :: "string \<Rightarrow> payload \<Rightarrow> real http_reply" where
  "post_status_500 url p = Response 500 Not_json"

definition post_0_2 :: "string \<Rightarrow> payload \<Rightarrow> real http_reply" where
  "post_0_2 url p = Response 200 (Json_embeddings [[0, 2], [32769 / 1048576, 2]])"


definition encoder_zero :: "real encoder" where
  "encoder_zero texts = map (\<lambda>t. [0, 0]) texts"

section \<open>crud.py: the store\<close>

text \<open>
  Modelled from the spec: the enum \<^verbatim>\<open>MetadataSource\<close> is declared in \<^verbatim>\<open>schemas.py\<close>, which
  is not among the sources; the spec gives it the two values human and plugin-generated.
\<close>

datatype MetadataSource = HUMAN | PLUGIN_GENERATED

text \<open>
  The ORM classes of \<^verbatim>\<open>models.py\<close> (not among the sources) are records with the
  columns that \<^verbatim>\<open>crud.py\<close> reads and writes; a table is the list of its rows in insertion
  order. Time stamps are whole seconds since the Unix epoch.
\<close>

record EntityModel =
  e_id :: int
  e_library_id :: int
  e_folder_id :: int
  e_filepath :: string
  e_file_created_at :: int
  e_file_last_modified_at :: int
  e_file_type_group :: string
  e_last_scan_at :: int

record TagModel =
  tag_id :: int
  tag_name :: string

record EntityTagModel =
  et_entity_id :: int
  et_tag_id :: int
  et_source :: MetadataSource

record EntityMetadataModel =
  em_entity_id :: int
  em_key :: string
  em_value :: string
  em_source :: "string option"
  em_source_type :: "MetadataSource option"
  em_data_type :: string

record PluginModel =
  plugin_id :: int
  plugin_name :: string

record LibraryPluginModel =
  lp_library_id :: int
  lp_plugin_id :: int

record EntityPluginStatusModel =
  eps_entity_id :: int
  eps_plugin_id :: int
  eps_processed_at :: int

record db =
  entities :: "EntityModel list"
  tags :: "TagModel list"
  entity_tags :: "EntityTagModel list"
  entity_metadata :: "EntityMetadataModel list"
  plugins :: "PluginModel list"
  library_plugins :: "LibraryPluginModel list"
  entity_plugin_status :: "EntityPluginStatusModel list"

text \<open>
  Modelled from the spec: the metadata table is declared in \<^verbatim>\<open>models.py\<close>, which is not
  among the sources. By the spec every metadata entry has a source type; the column
  \<^verbatim>\<open>source_type\<close> is NOT NULL. \<open>em_source_type\<close> is an option because the code builds rows
  without one: the store refuses such a row, and the flush that sends it raises
  \<^verbatim>\<open>IntegrityError\<close>. The table has no uniqueness constraint that \<^verbatim>\<open>crud.py\<close> relies on or
  handles: the code never catches an integrity error.
\<close>

definition storable :: "EntityMetadataModel \<Rightarrow> bool" where
  "storable r = (em_source_type r \<noteq> None)"

definition empty_db :: db where
  "empty_db =
     \<lparr>entities = [], tags = [], entity_tags = [], entity_metadata = [], plugins = [],
      library_plugins = [], entity_plugin_status = []\<rparr>"

text \<open>The request schemas \<^verbatim>\<open>EntityMetadataParam\<close> and \<^verbatim>\<open>NewEntityParam\<close>.\<close>

record EntityMetadataParam =
  mp_key :: string
  mp_value :: string
  mp_source :: "string option"
  mp_data_type :: string


text \<open>
  The store gives a new row its integer primary key: a key larger than every key of
  the table.
\<close>

definition next_id :: "int list \<Rightarrow> int" where
  "next_id ids = fold max ids 0 + 1"

text \<open>
  The store after a call: an exception leaves it as it was (see the section on
  exceptions).
\<close>

definition store_after :: "error + db \<Rightarrow> db \<Rightarrow> db" where
  "store_after r db = (case r of Inl e \<Rightarrow> db | Inr db' \<Rightarrow> db')"

definition get_entity_by_id :: "int \<Rightarrow> db \<Rightarrow> EntityModel option" where
  "get_entity_by_id entity_id db = find (\<lambda>e. e_id e = entity_id) (entities db)"

text \<open>\<^verbatim>\<open>db_entity.last_scan_at = func.now()\<close> on the row that \<^verbatim>\<open>.first()\<close> returned.\<close>

fun set_last_scan_at :: "int \<Rightarrow> int \<Rightarrow> EntityModel list \<Rightarrow> EntityModel list" where
  "set_last_scan_at entity_id now [] = []"
| "set_last_scan_at entity_id now (e # es) =
     (if e_id e = entity_id then e\<lparr>e_last_scan_at := now\<rparr> # es
      else e # set_last_scan_at entity_id now es)"

section \<open>crud.py: tags\<close>

text \<open>
  The loop that \<^verbatim>\<open>create_entity\<close>, \<^verbatim>\<open>update_entity\<close>, \<^verbatim>\<open>update_entity_tags\<close> and
  \<^verbatim>\<open>add_new_tags\<close> each spell out: for every name, take the first tag of that name or
  insert one, then insert an edge with source \<^verbatim>\<open>PLUGIN_GENERATED\<close>. No step of it looks at
  the edges already there.
\<close>

fun add_entity_tags :: "int \<Rightarrow> string list \<Rightarrow> db \<Rightarrow> db" where
  "add_entity_tags entity_id [] db = db"
| "add_entity_tags entity_id (name # names) db =
     (let (tag, db1) =
            (case find (\<lambda>t. tag_name t = name) (tags db) of
               Some t \<Rightarrow> (t, db)
             | None \<Rightarrow>
                 (let t = \<lparr>tag_id = next_id (map tag_id (tags db)), tag_name = name\<rparr>
                  in (t, db\<lparr>tags := tags db @ [t]\<rparr>)));
          entity_tag =
            \<lparr>et_entity_id = entity_id, et_tag_id = tag_id tag, et_source = PLUGIN_GENERATED\<rparr>
      in add_entity_tags entity_id names (db1\<lparr>entity_tags := entity_tags db1 @ [entity_tag]\<rparr>))"



definition not_found :: "int \<Rightarrow> error" where
  "not_found entity_id = ValueError (''Entity with id '' @ str entity_id @ '' not found'')"

definition update_entity_tags :: "int \<Rightarrow> string list \<Rightarrow> int \<Rightarrow> db \<Rightarrow> error + db" where
  "update_entity_tags entity_id tag_names now db =
     (case get_entity_by_id entity_id db of
        None \<Rightarrow> Inl (not_found entity_id)
      | Some db_entity \<Rightarrow>
          (let db1 = db\<lparr>entity_tags :=
                          filter (\<lambda>x. et_entity_id x \<noteq> entity_id) (entity_tags db)\<rparr>;
               db2 = add_entity_tags (e_id db_entity) tag_names db1
           in Inr (db2\<lparr>entities := set_last_scan_at entity_id now (entities db2)\<rparr>)))"

text \<open>
  Modelled from the spec: the relationship \<^verbatim>\<open>EntityModel.tags\<close> is declared in
  \<^verbatim>\<open>models.py\<close>; by the spec an entity owns its tags through the attribution edges, so
  \<^verbatim>\<open>db_entity.tags\<close> is every tag with an edge from the entity.
\<close>

definition entity_tag_names :: "int \<Rightarrow> db \<Rightarrow> string list" where
  "entity_tag_names entity_id db =
     map tag_name
       (filter (\<lambda>t. tag_id t \<in> et_tag_id ` set (filter (\<lambda>x. et_entity_id x = entity_id)
                                                   (entity_tags db)))
          (tags db))"

text \<open>
  \<^verbatim>\<open>new_tags = set(tags) - existing_tags\<close>: Python fixes no iteration order for a set; the
  model takes the names in the order of their first occurrence.
\<close>

definition add_new_tags :: "int \<Rightarrow> string list \<Rightarrow> int \<Rightarrow> db \<Rightarrow> error + db" where
  "add_new_tags entity_id tag_names now db =
     (case get_entity_by_id entity_id db of
        None \<Rightarrow> Inl (not_found entity_id)
      | Some db_entity \<Rightarrow>
          (let existing_tags = entity_tag_names (e_id db_entity) db;
               new_tags = remdups (filter (\<lambda>n. n \<notin> set existing_tags) tag_names);
               db1 = add_entity_tags (e_id db_entity) new_tags db
           in Inr (db1\<lparr>entities := set_last_scan_at entity_id now (entities db1)\<rparr>)))"


text \<open>
  Referential integrity of the tag tables, with at most one edge per (entity, tag) pair:
  tag keys are unique, and every edge joins an entity of the store to a tag of the store.
\<close>

definition tag_tables_ok :: "db \<Rightarrow> bool" where
  "tag_tables_ok db =
     (distinct (map tag_id (tags db)) \<and>
      et_tag_id ` set (entity_tags db) \<subseteq> tag_id ` set (tags db) \<and>
      et_entity_id ` set (entity_tags db) \<subseteq> e_id ` set (entities db) \<and>
      distinct (map (\<lambda>x. (et_entity_id x, et_tag_id x)) (entity_tags db)))"

section \<open>crud.py: metadata\<close>

text \<open>
  \<^verbatim>\<open>existing_metadata_dict = {entry.key: entry for entry in existing_metadata_entries}\<close>.
  An entry is a row object of the session: the model names it by its position in the
  table, so that writing to the entry writes to that row. Of two rows with one key the
  later one stays in the dict.
\<close>

definition existing_metadata_dict :: "int \<Rightarrow> EntityMetadataModel list \<Rightarrow> (string \<rightharpoonup> nat)" where
  "existing_metadata_dict entity_id rows =
     map_of (rev (map (\<lambda>(i, r). (em_key r, i))
                    (filter (\<lambda>(i, r). em_entity_id r = entity_id) (enumerate 0 rows))))"

definition update_metadata_row :: "EntityMetadataModel \<Rightarrow> EntityMetadataParam \<Rightarrow> EntityMetadataModel" where
  "update_metadata_row existing_metadata metadata =
     existing_metadata
       \<lparr>em_value := mp_value metadata,
        em_source :=
          (if mp_source metadata \<noteq> None then mp_source metadata
           else em_source existing_metadata),
        em_source_type :=
          (if mp_source metadata \<noteq> None then Some PLUGIN_GENERATED
           else em_source_type existing_metadata),
        em_data_type := mp_data_type metadata\<rparr>"

definition insert_metadata_row :: "int \<Rightarrow> EntityMetadataParam \<Rightarrow> EntityMetadataModel" where
  "insert_metadata_row entity_id metadata =
     \<lparr>em_entity_id = entity_id, em_key = mp_key metadata, em_value = mp_value metadata,
      em_source = mp_source metadata,
      em_source_type = (if mp_source metadata \<noteq> None then Some PLUGIN_GENERATED else None),
      em_data_type = mp_data_type metadata\<rparr>"

text \<open>
  The loop over \<^verbatim>\<open>updated_metadata\<close>. The dict is built once, before the loop, and the
  loop does not add to it. Its positions are positions of this table, which only grows,
  so \<open>rows ! i\<close> is always a row.
\<close>

fun upsert_metadata ::
  "(string \<rightharpoonup> nat) \<Rightarrow> int \<Rightarrow> EntityMetadataParam list \<Rightarrow> EntityMetadataModel list
     \<Rightarrow> EntityMetadataModel list" where
  "upsert_metadata d entity_id [] rows = rows"
| "upsert_metadata d entity_id (metadata # rest) rows =
     upsert_metadata d entity_id rest
       (case d (mp_key metadata) of
          Some i \<Rightarrow> rows[i := update_metadata_row (rows ! i) metadata]
        | None \<Rightarrow> rows @ [insert_metadata_row entity_id metadata])"

text \<open>
  There is no not-found check: for an absent entity \<^verbatim>\<open>db_entity\<close> is \<^verbatim>\<open>None\<close> and
  \<^verbatim>\<open>db_entity.id\<close> raises \<^verbatim>\<open>AttributeError\<close>. The rows the loop inserts are those of the
  writes whose key the dict does not hold; if the store refuses one of them the call
  raises \<^verbatim>\<open>IntegrityError\<close>, and since its only commit is the last statement, nothing is
  written.
\<close>

definition update_entity_metadata_entries ::
  "int \<Rightarrow> EntityMetadataParam list \<Rightarrow> int \<Rightarrow> db \<Rightarrow> error + db" where
  "update_entity_metadata_entries entity_id updated_metadata now db =
     (case get_entity_by_id entity_id db of
        None \<Rightarrow> Inl AttributeError
      | Some db_entity \<Rightarrow>
          (let d = existing_metadata_dict (e_id db_entity) (entity_metadata db);
               rows = upsert_metadata d (e_id db_entity) updated_metadata (entity_metadata db);
               inserted = map (insert_metadata_row (e_id db_entity))
                            (filter (\<lambda>m. d (mp_key m) = None) updated_metadata)
           in if list_all storable inserted
              then Inr (db\<lparr>entity_metadata := rows,
                           entities := set_last_scan_at entity_id now (entities db)\<rparr>)
              else Inl IntegrityError))"

definition metadata_rows :: "db \<Rightarrow> int \<Rightarrow> string \<Rightarrow> EntityMetadataModel list" where
  "metadata_rows db entity_id k =
     filter (\<lambda>r. em_entity_id r = entity_id \<and> em_key r = k) (entity_metadata db)"

section \<open>crud.py: update_entity\<close>





section \<open>crud.py: sequences of tag writes\<close>





section \<open>crud.py: plugin status\<close>

text \<open>
  Modelled from the spec: the primary key of \<^verbatim>\<open>EntityPluginStatusModel\<close> and the default
  of \<^verbatim>\<open>processed_at\<close> are declared in \<^verbatim>\<open>models.py\<close>. By the spec the table is unique on
  (entity_id, plugin_id) and a new marker carries the time of its recording.
  \<^verbatim>\<open>db.merge(status)\<close> looks the object up by that key: it inserts the object when no row
  has the key, and otherwise copies the attributes the object carries onto the row.
\<close>

definition record_plugin_processed :: "int \<Rightarrow> int \<Rightarrow> int \<Rightarrow> db \<Rightarrow> db" where
  "record_plugin_processed entity_id plugin now db =
     (let same_key = (\<lambda>s. eps_entity_id s = entity_id \<and> eps_plugin_id s = plugin)
      in if list_ex same_key (entity_plugin_status db)
         then db\<lparr>entity_plugin_status :=
                   map (\<lambda>s. if same_key s
                             then s\<lparr>eps_entity_id := entity_id, eps_plugin_id := plugin\<rparr>
                             else s)
                     (entity_plugin_status db)\<rparr>
         else db\<lparr>entity_plugin_status :=
                   entity_plugin_status db @
                     [\<lparr>eps_entity_id = entity_id, eps_plugin_id = plugin,
                       eps_processed_at = now\<rparr>]\<rparr>)"

text \<open>
  The first query joins \<^verbatim>\<open>plugins\<close> with \<^verbatim>\<open>library_plugins\<close> on the plugin key. The result
  \<^verbatim>\<open>list(set(a) - set(b))\<close> has no fixed order in Python; the model lists it in the order
  of the first query.
\<close>

definition library_plugin_ids :: "int \<Rightarrow> db \<Rightarrow> int list" where
  "library_plugin_ids library_id db =
     concat (map (\<lambda>p. map (\<lambda>lp. plugin_id p)
                        (filter (\<lambda>lp. lp_plugin_id lp = plugin_id p \<and>
                                       lp_library_id lp = library_id)
                           (library_plugins db)))
               (plugins db))"

definition processed_plugin_ids :: "int \<Rightarrow> db \<Rightarrow> int list" where
  "processed_plugin_ids entity_id db =
     map eps_plugin_id (filter (\<lambda>s. eps_entity_id s = entity_id) (entity_plugin_status db))"

definition get_pending_plugins :: "int \<Rightarrow> int \<Rightarrow> db \<Rightarrow> int list" where
  "get_pending_plugins entity_id library_id db =
     remdups (filter (\<lambda>p. p \<notin> set (processed_plugin_ids entity_id db))
                (library_plugin_ids library_id db))"

definition status_rows :: "db \<Rightarrow> int \<Rightarrow> int \<Rightarrow> EntityPluginStatusModel list" where
  "status_rows db entity_id plugin =
     filter (\<lambda>s. eps_entity_id s = entity_id \<and> eps_plugin_id s = plugin)
       (entity_plugin_status db)"

section \<open>crud.py: ordered reads\<close>

text \<open>
  \<^verbatim>\<open>ORDER BY\<close> is a stable sort of the rows in table order: SQL leaves the order of rows
  with equal keys open, and nothing below depends on it. \<^verbatim>\<open>LIMIT n\<close> keeps the first n
  rows; SQLite reads a negative n as no limit.
\<close>

definition order_by_asc :: "('a \<Rightarrow> int) \<Rightarrow> 'a list \<Rightarrow> 'a list" where
  "order_by_asc k rows = sort_key k rows"

definition order_by_desc :: "('a \<Rightarrow> int) \<Rightarrow> 'a list \<Rightarrow> 'a list" where
  "order_by_desc k rows = sort_key (\<lambda>r. - k r) rows"

definition limit_rows :: "int \<Rightarrow> 'a list \<Rightarrow> 'a list" where
  "limit_rows n rows = (if n < 0 then rows else take (nat n) rows)"

text \<open>
  \<^verbatim>\<open>func.strftime("%s", file_created_at, "utc")\<close> is the TEXT of the seconds since the epoch,
  after SQLite's \<^verbatim>\<open>utc\<close> modifier has moved the time from the host's local zone to UTC;
  \<open>utc_modifier\<close> is that shift (the identity on a host whose zone is UTC). The bounds
  are passed as \<^verbatim>\<open>str(start)\<close> and \<^verbatim>\<open>str(end)\<close>, so \<^verbatim>\<open>between\<close> compares TEXT with TEXT.
\<close>

definition list_entities ::
  "(int \<Rightarrow> int) \<Rightarrow> db \<Rightarrow> int \<Rightarrow> int list option \<Rightarrow> int option \<Rightarrow> int option
     \<Rightarrow> EntityModel list" where
  "list_entities utc_modifier db limit library_ids start end =
     (let q1 = filter (\<lambda>e. e_file_type_group e = ''image'') (entities db);
          q2 = (case library_ids of
                  None \<Rightarrow> q1
                | Some ids \<Rightarrow>
                    if ids = [] then q1 else filter (\<lambda>e. e_library_id e \<in> set ids) q1);
          q3 = (case (start, end) of
                  (Some s, Some t) \<Rightarrow>
                    filter (\<lambda>e. text_between (str (utc_modifier (e_file_created_at e)))
                                   (str s) (str t)) q2
                | _ \<Rightarrow> q2)
      in limit_rows limit (order_by_desc e_file_created_at q3))"

definition get_entity_context ::
  "db \<Rightarrow> int \<Rightarrow> int \<Rightarrow> int \<Rightarrow> int \<Rightarrow> EntityModel list \<times> EntityModel list" where
  "get_entity_context db library_id entity_id prev next =
     (case find (\<lambda>e. e_id e = entity_id \<and> e_library_id e = library_id) (entities db) of
        None \<Rightarrow> ([], [])
      | Some target_entity \<Rightarrow>
          (let prev_entities =
                 (if prev > 0
                  then rev (limit_rows prev
                         (order_by_desc e_file_created_at
                            (filter (\<lambda>e. e_library_id e = library_id \<and>
                                          e_file_created_at e < e_file_created_at target_entity)
                               (entities db))))
                  else []);
               next_entities =
                 (if next > 0
                  then limit_rows next
                         (order_by_asc e_file_created_at
                            (filter (\<lambda>e. e_library_id e = library_id \<and>
                                          e_file_created_at e > e_file_created_at target_entity)
                               (entities db)))
                  else [])
           in (prev_entities, next_entities)))"

section \<open>Example stores\<close>

definition example_entity :: "int \<Rightarrow> int \<Rightarrow> int \<Rightarrow> EntityModel" where
  "example_entity i library_id created =
     \<lparr>e_id = i, e_library_id = library_id, e_folder_id = 1, e_filepath = ''/shots/'' @ str i,
      e_file_created_at = created, e_file_last_modified_at = created,
      e_file_type_group = ''image'', e_last_scan_at = created\<rparr>"

text \<open>A library bound to the plugins 1, 2 and 3; plugin 1 has processed entity 1.\<close>

definition plugin_example_db :: db where
  "plugin_example_db =
     empty_db
       \<lparr>entities := [example_entity 1 1 10],
        plugins := [\<lparr>plugin_id = 1, plugin_name = ''A''\<rparr>, \<lparr>plugin_id = 2, plugin_name = ''B''\<rparr>,
                    \<lparr>plugin_id = 3, plugin_name = ''C''\<rparr>],
        library_plugins := [\<lparr>lp_library_id = 1, lp_plugin_id = 1\<rparr>,
                            \<lparr>lp_library_id = 1, lp_plugin_id = 2\<rparr>,
                            \<lparr>lp_library_id = 1, lp_plugin_id = 3\<rparr>],
        entity_plugin_status := [\<lparr>eps_entity_id = 1, eps_plugin_id = 1, eps_processed_at = 11\<rparr>]\<rparr>"

text \<open>Five entities of library 1, created at 10, 20, 30, 40 and 50.\<close>

definition context_example_db :: db where
  "context_example_db =
     empty_db
       \<lparr>entities := [example_entity 1 1 10, example_entity 2 1 20, example_entity 3 1 30,
                     example_entity 4 1 40, example_entity 5 1 50]\<rparr>"

text \<open>One image of library 1, created at 1600000000 (September 2020).\<close>

definition image_2020_db :: db where
  "image_2020_db = empty_db\<lparr>entities := [example_entity 1 1 1600000000]\<rparr>"


definition ocr_write_2 :: EntityMetadataParam where
  "ocr_write_2 =
     \<lparr>mp_key = ''ocr'', mp_value = ''second'', mp_source = None, mp_data_type = ''text''\<rparr>"

definition ocr_write_3 :: EntityMetadataParam where
  "ocr_write_3 =
     \<lparr>mp_key = ''ocr'', mp_value = ''third'', mp_source = Some ''vlm_plugin'',
      mp_data_type = ''text''\<rparr>"



text \<open>
  The store \<open>image_2020_db\<close> after the first write of the key ocr at time 5, and after the
  second at time 6.
\<close>

definition ocr_db_1 :: db where
  "ocr_db_1 =
     image_2020_db
       \<lparr>entities := [(example_entity 1 1 1600000000)\<lparr>e_last_scan_at := 5\<rparr>],
        entity_metadata :=
          [\<lparr>em_entity_id = 1, em_key = ''ocr'', em_value = ''first'',
            em_source = Some ''ocr_plugin'', em_source_type = Some PLUGIN_GENERATED,
            em_data_type = ''text''\<rparr>]\<rparr>"


section \<open>Theorems: embedding.py\<close>

text \<open>
  The part of C1 that the code keeps: a transport failure (\<^verbatim>\<open>client.post\<close> raises
  \<^verbatim>\<open>httpx.RequestError\<close>) gives the empty list. A response outside 200..299 is raised by
  \<^verbatim>\<open>raise_for_status\<close> as \<^verbatim>\<open>HTTPStatusError\<close> and leaves the function.
\<close>

lemma get_remote_embeddings_transport_failure:
  assumes "client_post (embedding_endpoint settings)
             \<lparr>payload_model = embedding_model settings, payload_input = texts\<rparr>
           = RequestError_raised"
  shows "get_remote_embeddings settings client_post texts = Inr []"
  using assms by (simp add: get_remote_embeddings_def)

lemma get_remote_embeddings_non_2xx:
  assumes "client_post (embedding_endpoint settings)
             \<lparr>payload_model = embedding_model settings, payload_input = texts\<rparr>
           = Response status body"
    and "\<not> (200 \<le> status \<and> status < 300)"
  shows "get_remote_embeddings settings client_post texts = Inl (HTTPStatusError status)"
  using assms by (simp add: get_remote_embeddings_def)

text \<open>
  C1, at an input where the code departs from it. For every list of input texts the
  claim has \<open>get_remote_embeddings\<close> return the empty list on a transport failure and on
  a response that is not 2xx. An unreachable endpoint does give the empty list, but a
  reply with status 500 raises \<^verbatim>\<open>HTTPStatusError\<close> to the caller: the call
  \<^verbatim>\<open>raise_for_status()\<close> stands inside the \<^verbatim>\<open>try\<close>, whose handler names \<^verbatim>\<open>httpx.RequestError\<close>
  and not the common parent \<^verbatim>\<open>httpx.HTTPError\<close>.
\<close>

theorem get_remote_embeddings_status_500_raises:
  "get_remote_embeddings remote_settings post_status_500 [''a'', ''b'']
     = Inl (HTTPStatusError 500) \<and>
   get_remote_embeddings remote_settings post_status_500 [''a'', ''b''] \<noteq> Inr [] \<and>
   get_remote_embeddings remote_settings post_unreachable [''a'', ''b''] = Inr []"
  by (simp add: get_remote_embeddings_def post_status_500_def post_unreachable_def)





lemma exact_round_examples:
  "exact_round 0 5 = 0" "exact_round 1 5 = 1" "exact_round 2 5 = 2"
  "exact_round (32769 / 1048576) 5 = 1 / 32"
  by (simp_all add: exact_round_def round_half_even_def Let_def)

lemma exact_numerics_fields:
  "np_linalg_norm exact_numerics = exact_norm" "np_is_zero exact_numerics n = (n = 0)"
  "np_one exact_numerics = 1" "np_divide exact_numerics x n = x / n"
  "np_tolist exact_numerics x = x" "py_round exact_numerics = exact_round"
  by (simp_all add: exact_numerics_def)


text \<open>A raw row of norm zero is divided by 1 and comes back as it is.\<close>

lemma get_embeddings_zero_row:
  "fst (get_embeddings exact_numerics local_settings post_0_2 encoder_zero None [''a''])
     = Inr [[0, 0]]"
  by (simp add: get_embeddings_def generate_embeddings_def round_rows_def Let_def
       local_settings_def remote_settings_def encoder_zero_def exact_numerics_fields
       exact_norm_def exact_round_examples)




section \<open>Theorems: plugin status\<close>

lemma set_library_plugin_ids:
  "set (library_plugin_ids library_id db)
     = {p \<in> plugin_id ` set (plugins db).
          \<exists>lp \<in> set (library_plugins db). lp_library_id lp = library_id \<and> lp_plugin_id lp = p}"
  unfolding library_plugin_ids_def by auto

lemma set_processed_plugin_ids:
  "set (processed_plugin_ids entity_id db)
     = eps_plugin_id ` {s \<in> set (entity_plugin_status db). eps_entity_id s = entity_id}"
  unfolding processed_plugin_ids_def by auto

text \<open>
  C5. For every entity and library, \<open>get_pending_plugins\<close> returns exactly the plugins bound
  to the library (the rows of \<^verbatim>\<open>plugins\<close> joined to the library's \<^verbatim>\<open>library_plugins\<close> rows)
  minus the plugins with a status row for the entity, each once; nothing is said about
  their order.
\<close>

theorem get_pending_plugins_set_difference:
  "set (get_pending_plugins entity_id library_id db)
     = {p \<in> plugin_id ` set (plugins db).
          \<exists>lp \<in> set (library_plugins db). lp_library_id lp = library_id \<and> lp_plugin_id lp = p}
       - eps_plugin_id ` {s \<in> set (entity_plugin_status db). eps_entity_id s = entity_id} \<and>
   distinct (get_pending_plugins entity_id library_id db)"
proof -
  have "set (get_pending_plugins entity_id library_id db)
          = set (library_plugin_ids library_id db) - set (processed_plugin_ids entity_id db)"
    unfolding get_pending_plugins_def by auto
  then show ?thesis
    unfolding set_library_plugin_ids set_processed_plugin_ids
    by (simp add: get_pending_plugins_def)
qed


lemma plugin_example_db_tables:
  "plugins plugin_example_db
     = [\<lparr>plugin_id = 1, plugin_name = ''A''\<rparr>, \<lparr>plugin_id = 2, plugin_name = ''B''\<rparr>,
        \<lparr>plugin_id = 3, plugin_name = ''C''\<rparr>]"
  "library_plugins plugin_example_db
     = [\<lparr>lp_library_id = 1, lp_plugin_id = 1\<rparr>, \<lparr>lp_library_id = 1, lp_plugin_id = 2\<rparr>,
        \<lparr>lp_library_id = 1, lp_plugin_id = 3\<rparr>]"
  "entity_plugin_status plugin_example_db
     = [\<lparr>eps_entity_id = 1, eps_plugin_id = 1, eps_processed_at = 11\<rparr>]"
  by (simp_all add: plugin_example_db_def empty_db_def)

lemma get_pending_plugins_example: "get_pending_plugins 1 1 plugin_example_db = [2, 3]"
  by (simp add: get_pending_plugins_def library_plugin_ids_def processed_plugin_ids_def
       plugin_example_db_tables)

theorem get_pending_plugins_set_difference_witness:
  "set (get_pending_plugins 1 1 plugin_example_db) = {2, 3} \<and>
   distinct (get_pending_plugins 1 1 plugin_example_db)"
proof -
  from get_pending_plugins_set_difference [of 1 1 plugin_example_db]
  have "distinct (get_pending_plugins 1 1 plugin_example_db)" by blast
  then show ?thesis by (simp add: get_pending_plugins_example)
qed

lemma record_plugin_processed_present:
  assumes "status_rows db e p \<noteq> []"
  shows "record_plugin_processed e p now db = db"
proof -
  have ex: "list_ex (\<lambda>s. eps_entity_id s = e \<and> eps_plugin_id s = p) (entity_plugin_status db)"
    using assms by (auto simp: status_rows_def list_ex_iff filter_empty_conv)
  have "map (\<lambda>s. if eps_entity_id s = e \<and> eps_plugin_id s = p
                  then s\<lparr>eps_entity_id := e, eps_plugin_id := p\<rparr> else s)
          (entity_plugin_status db) = entity_plugin_status db"
    by (rule map_idI) simp
  with ex show ?thesis
    by (simp add: record_plugin_processed_def Let_def)
qed

lemma record_plugin_processed_absent:
  assumes "status_rows db e p = []"
  shows "status_rows (record_plugin_processed e p now db) e p
           = [\<lparr>eps_entity_id = e, eps_plugin_id = p, eps_processed_at = now\<rparr>]"
proof -
  have "\<not> list_ex (\<lambda>s. eps_entity_id s = e \<and> eps_plugin_id s = p) (entity_plugin_status db)"
    using assms by (auto simp: status_rows_def list_ex_iff filter_empty_conv)
  then show ?thesis
    using assms by (simp add: record_plugin_processed_def Let_def status_rows_def)
qed

lemma status_row_not_pending:
  assumes "status_rows db e p \<noteq> []"
  shows "p \<notin> set (get_pending_plugins e l db)"
proof -
  obtain s where "s \<in> set (entity_plugin_status db)" "eps_entity_id s = e" "eps_plugin_id s = p"
    using assms by (auto simp: status_rows_def filter_empty_conv)
  then have "p \<in> set (processed_plugin_ids e db)"
    by (force simp: processed_plugin_ids_def)
  then show ?thesis
    by (simp add: get_pending_plugins_def)
qed

text \<open>
  C6. For every entity \<open>e\<close> and plugin \<open>p\<close>, in a store with at most one status row for the
  pair (the table's key), calling \<open>record_plugin_processed\<close> twice leaves exactly one status
  row for (e, p): the second call inserts nothing and leaves the store as the first call
  left it. Afterwards \<open>get_pending_plugins\<close> excludes \<open>p\<close> for \<open>e\<close>, for every library.
\<close>

theorem record_plugin_processed_twice:
  assumes "length (status_rows db e p) \<le> 1"
  shows "length (status_rows (record_plugin_processed e p now2
                                (record_plugin_processed e p now1 db)) e p) = 1 \<and>
         record_plugin_processed e p now2 (record_plugin_processed e p now1 db)
           = record_plugin_processed e p now1 db \<and>
         p \<notin> set (get_pending_plugins e l
                     (record_plugin_processed e p now2 (record_plugin_processed e p now1 db)))"
proof -
  let ?db1 = "record_plugin_processed e p now1 db"
  have one: "length (status_rows ?db1 e p) = 1"
  proof (cases "status_rows db e p = []")
    case True
    then show ?thesis by (simp add: record_plugin_processed_absent)
  next
    case False
    then have "?db1 = db" by (rule record_plugin_processed_present)
    moreover have "length (status_rows db e p) = 1"
      using False assms by (cases "status_rows db e p") auto
    ultimately show ?thesis by simp
  qed
  then have ne: "status_rows ?db1 e p \<noteq> []" by auto
  then have same: "record_plugin_processed e p now2 ?db1 = ?db1"
    by (rule record_plugin_processed_present)
  show ?thesis
    using one same status_row_not_pending [OF ne] by simp
qed


theorem record_plugin_processed_twice_witness:
  "length (status_rows (record_plugin_processed 1 2 13
                          (record_plugin_processed 1 2 12 plugin_example_db)) 1 2) = 1 \<and>
   2 \<notin> set (get_pending_plugins 1 1
              (record_plugin_processed 1 2 13 (record_plugin_processed 1 2 12 plugin_example_db)))"
proof -
  have h: "length (status_rows plugin_example_db 1 2) \<le> 1"
    by (simp add: status_rows_def plugin_example_db_tables)
  from record_plugin_processed_twice [OF h, of 13 12 1] show ?thesis by blast
qed

section \<open>Theorems: ordered reads\<close>

lemma example_entity_fields:
  "e_id (example_entity i l c) = i"
  "e_library_id (example_entity i l c) = l"
  "e_file_created_at (example_entity i l c) = c"
  "e_file_type_group (example_entity i l c) = ''image''"
  by (simp_all add: example_entity_def)

lemma example_entity_eq:
  "(example_entity i l c = example_entity i' l' c') = (i = i' \<and> l = l' \<and> c = c')"
  by (auto simp: example_entity_def)

lemma limit_rows_positive: "0 < n \<Longrightarrow> limit_rows n rows = take (nat n) rows"
  by (simp add: limit_rows_def)

lemma sorted_take_asc: "sorted (map k (take n (order_by_asc k rows)))"
proof -
  have "sorted_wrt (\<lambda>x y. k x \<le> k y) (sort_key k rows)"
    using sorted_sort_key [of k rows] by (simp add: sorted_map)
  then have "sorted_wrt (\<lambda>x y. k x \<le> k y) (take n (sort_key k rows))"
    by (rule sorted_wrt_take)
  then show ?thesis
    by (simp only: order_by_asc_def sorted_map)
qed

lemma sorted_rev_take_desc: "sorted (map k (rev (take n (order_by_desc k rows))))"
proof -
  have "sorted (map (\<lambda>r. - k r) (sort_key (\<lambda>r. - k r) rows))"
    by (rule sorted_sort_key)
  then have "sorted_wrt (\<lambda>x y. k y \<le> k x) (sort_key (\<lambda>r. - k r) rows)"
    by (simp add: sorted_map)
  then have "sorted_wrt (\<lambda>x y. k y \<le> k x) (take n (sort_key (\<lambda>r. - k r) rows))"
    by (rule sorted_wrt_take)
  then show ?thesis
    by (simp only: order_by_desc_def sorted_map sorted_wrt_rev)
qed

lemma take_sort_key_nearest:
  fixes f :: "'a \<Rightarrow> int"
  assumes "e \<in> set rows" and "e \<notin> set (take n (sort_key f rows))"
  shows "length (take n (sort_key f rows)) = n \<and>
         (\<forall>p \<in> set (take n (sort_key f rows)). f p \<le> f e)"
proof -
  let ?ys = "sort_key f rows"
  have "set ?ys = set (take n ?ys) \<union> set (drop n ?ys)"
    by (metis append_take_drop_id set_append)
  then have in_drop: "e \<in> set (drop n ?ys)" using assms by simp
  then have "n < length ?ys" by (cases "n < length ?ys") auto
  then have len: "length (take n ?ys) = n" by simp
  have "sorted_wrt (\<lambda>x y. f x \<le> f y) (take n ?ys @ drop n ?ys)"
    using sorted_sort_key [of f rows] by (simp add: sorted_map)
  then have "\<forall>p \<in> set (take n ?ys). f p \<le> f e"
    using in_drop unfolding sorted_wrt_append by blast
  with len show ?thesis by simp
qed

text \<open>
  C7. For every library and anchor entity id, \<open>get_entity_context\<close> returns at most \<open>prev\<close>
  entities created strictly before the anchor and at most \<open>next\<close> entities created
  strictly after it, all of the anchor's library, both lists ascending by creation time;
  they are the nearest ones: an entity of the library on that side that is left out is
  no nearer to the anchor than any entity returned, and then the list is full. If no
  entity has the anchor id in that library, both lists are empty. The function raises
  nothing.
\<close>

theorem get_entity_context_ordered:
  assumes "get_entity_context db library_id entity_id prev next = (ps, ns)"
  shows
    "(find (\<lambda>e. e_id e = entity_id \<and> e_library_id e = library_id) (entities db) = None
        \<longrightarrow> ps = [] \<and> ns = []) \<and>
     (\<forall>target.
        find (\<lambda>e. e_id e = entity_id \<and> e_library_id e = library_id) (entities db)
          = Some target \<longrightarrow>
        length ps \<le> nat prev \<and> length ns \<le> nat next \<and>
        set ps \<subseteq> {e \<in> set (entities db). e_library_id e = library_id \<and>
                      e_file_created_at e < e_file_created_at target} \<and>
        set ns \<subseteq> {e \<in> set (entities db). e_library_id e = library_id \<and>
                      e_file_created_at target < e_file_created_at e} \<and>
        sorted (map e_file_created_at ps) \<and> sorted (map e_file_created_at ns) \<and>
        (\<forall>e \<in> set (entities db).
           e_library_id e = library_id \<and> e_file_created_at e < e_file_created_at target \<and>
           e \<notin> set ps \<longrightarrow>
           length ps = nat prev \<and> (\<forall>p \<in> set ps. e_file_created_at e \<le> e_file_created_at p)) \<and>
        (\<forall>e \<in> set (entities db).
           e_library_id e = library_id \<and> e_file_created_at target < e_file_created_at e \<and>
           e \<notin> set ns \<longrightarrow>
           length ns = nat next \<and> (\<forall>n \<in> set ns. e_file_created_at n \<le> e_file_created_at e)))"
proof (cases "find (\<lambda>e. e_id e = entity_id \<and> e_library_id e = library_id) (entities db)")
  case None
  with assms show ?thesis by (simp add: get_entity_context_def)
next
  case (Some target)
  let ?before = "filter (\<lambda>e. e_library_id e = library_id \<and>
                    e_file_created_at e < e_file_created_at target) (entities db)"
  let ?after = "filter (\<lambda>e. e_library_id e = library_id \<and>
                    e_file_created_at e > e_file_created_at target) (entities db)"
  have ps: "ps = (if prev > 0
                  then rev (take (nat prev) (order_by_desc e_file_created_at ?before)) else [])"
    using assms Some by (auto simp: get_entity_context_def Let_def limit_rows_positive)
  have ns: "ns = (if next > 0
                  then take (nat next) (order_by_asc e_file_created_at ?after) else [])"
    using assms Some by (auto simp: get_entity_context_def Let_def limit_rows_positive)
  have len: "length ps \<le> nat prev \<and> length ns \<le> nat next"
    by (simp add: ps ns)
  have sub_ps: "set ps \<subseteq> {e \<in> set (entities db). e_library_id e = library_id \<and>
                      e_file_created_at e < e_file_created_at target}"
    by (auto simp: ps order_by_desc_def dest!: in_set_takeD)
  have sub_ns: "set ns \<subseteq> {e \<in> set (entities db). e_library_id e = library_id \<and>
                      e_file_created_at target < e_file_created_at e}"
    by (auto simp: ns order_by_asc_def dest!: in_set_takeD)
  have sorted: "sorted (map e_file_created_at ps) \<and> sorted (map e_file_created_at ns)"
    by (simp add: ps ns sorted_rev_take_desc sorted_take_asc)
  have near_ps: "length ps = nat prev \<and> (\<forall>p \<in> set ps. e_file_created_at e \<le> e_file_created_at p)"
    if e: "e \<in> set (entities db)" "e_library_id e = library_id"
       "e_file_created_at e < e_file_created_at target" "e \<notin> set ps" for e
  proof (cases "prev > 0")
    case True
    have "e \<in> set ?before" using e by simp
    moreover have "e \<notin> set (take (nat prev) (sort_key (\<lambda>r. - e_file_created_at r) ?before))"
      using e(4) True by (simp add: ps order_by_desc_def)
    ultimately show ?thesis
      using take_sort_key_nearest [of e ?before "nat prev" "\<lambda>r. - e_file_created_at r"] True
      by (simp add: ps order_by_desc_def)
  next
    case False
    then show ?thesis by (simp add: ps)
  qed
  have near_ns: "length ns = nat next \<and> (\<forall>n \<in> set ns. e_file_created_at n \<le> e_file_created_at e)"
    if e: "e \<in> set (entities db)" "e_library_id e = library_id"
       "e_file_created_at target < e_file_created_at e" "e \<notin> set ns" for e
  proof (cases "next > 0")
    case True
    have "e \<in> set ?after" using e by simp
    moreover have "e \<notin> set (take (nat next) (sort_key e_file_created_at ?after))"
      using e(4) True by (simp add: ns order_by_asc_def)
    ultimately show ?thesis
      using take_sort_key_nearest [of e ?after "nat next" e_file_created_at] True
      by (simp add: ns order_by_asc_def)
  next
    case False
    then show ?thesis by (simp add: ns)
  qed
  have near_ps': "\<forall>e \<in> set (entities db).
           e_library_id e = library_id \<and> e_file_created_at e < e_file_created_at target \<and>
           e \<notin> set ps \<longrightarrow>
           length ps = nat prev \<and> (\<forall>p \<in> set ps. e_file_created_at e \<le> e_file_created_at p)"
    using near_ps by blast
  have near_ns': "\<forall>e \<in> set (entities db).
           e_library_id e = library_id \<and> e_file_created_at target < e_file_created_at e \<and>
           e \<notin> set ns \<longrightarrow>
           length ns = nat next \<and> (\<forall>n \<in> set ns. e_file_created_at n \<le> e_file_created_at e)"
    using near_ns by blast
  show ?thesis
    unfolding Some using len sub_ps sub_ns sorted near_ps' near_ns' by simp
qed

lemma context_example_entities:
  "entities context_example_db
     = [example_entity 1 1 10, example_entity 2 1 20, example_entity 3 1 30,
        example_entity 4 1 40, example_entity 5 1 50]"
  by (simp add: context_example_db_def empty_db_def)

lemma get_entity_context_example:
  "get_entity_context context_example_db 1 3 2 1
     = ([example_entity 1 1 10, example_entity 2 1 20], [example_entity 4 1 40])"
  by (simp add: get_entity_context_def context_example_entities example_entity_fields
       limit_rows_def order_by_desc_def order_by_asc_def Let_def)

theorem get_entity_context_ordered_witness:
  "get_entity_context context_example_db 1 3 2 1
     = ([example_entity 1 1 10, example_entity 2 1 20], [example_entity 4 1 40]) \<and>
   sorted (map e_file_created_at [example_entity 1 1 10, example_entity 2 1 20]) \<and>
   get_entity_context context_example_db 1 99 2 1 = ([], [])"
proof -
  have "find (\<lambda>e. e_id e = 3 \<and> e_library_id e = 1) (entities context_example_db)
          = Some (example_entity 3 1 30)"
    by (simp add: context_example_entities example_entity_fields)
  with get_entity_context_ordered [OF get_entity_context_example]
  have "sorted (map e_file_created_at [example_entity 1 1 10, example_entity 2 1 20])"
    by blast
  moreover have "find (\<lambda>e. e_id e = 99 \<and> e_library_id e = 1) (entities context_example_db) = None"
    by (simp add: context_example_entities example_entity_fields)
  with get_entity_context_ordered
         [of context_example_db 1 99 2 1
             "fst (get_entity_context context_example_db 1 99 2 1)"
             "snd (get_entity_context context_example_db 1 99 2 1)"]
  have "get_entity_context context_example_db 1 99 2 1 = ([], [])"
    by (simp add: prod_eq_iff)
  ultimately show ?thesis
    using get_entity_context_example by simp
qed

lemma image_2020_entities: "entities image_2020_db = [example_entity 1 1 1600000000]"
  by (simp add: image_2020_db_def empty_db_def)

lemma str_examples:
  "str 999999999 = ''999999999''"
  "str 1600000000 = ''1600000000''"
  "str 1700000000 = ''1700000000''"
  by (simp_all add: str_def str_nat.simps digit_char_def)

text \<open>
  C8, at an input where the code departs from it. The time range is compared as TEXT:
  the store holds one image created at 1600000000, and the range from 999999999 to
  1700000000 contains that time, yet \<open>list_entities\<close> returns nothing, because the text
  \<open>''999999999''\<close> sorts after \<open>''1600000000''\<close>. The host's zone is UTC here
  (\<open>utc_modifier\<close> is the identity).
\<close>

theorem list_entities_text_bounds:
  "list_entities id image_2020_db 200 None (Some 999999999) (Some 1700000000) = [] \<and>
   entities image_2020_db = [example_entity 1 1 1600000000] \<and>
   e_file_type_group (example_entity 1 1 1600000000) = ''image'' \<and>
   999999999 \<le> e_file_created_at (example_entity 1 1 1600000000) \<and>
   e_file_created_at (example_entity 1 1 1600000000) \<le> 1700000000"
  by (simp add: list_entities_def image_2020_entities example_entity_fields str_examples
       text_between_def limit_rows_def order_by_desc_def Let_def)

text \<open>
  What \<open>list_entities\<close> does keep for every call: only images of the store, newest first,
  at most \<open>limit\<close> of them.
\<close>

lemma list_entities_image_sorted_limited:
  "set (list_entities utc_modifier db limit library_ids start end)
     \<subseteq> {e \<in> set (entities db). e_file_type_group e = ''image''} \<and>
   sorted (rev (map e_file_created_at (list_entities utc_modifier db limit library_ids start end))) \<and>
   (0 \<le> limit \<longrightarrow>
      length (list_entities utc_modifier db limit library_ids start end) \<le> nat limit)"
proof -
  have "\<exists>q. set q \<subseteq> {e \<in> set (entities db). e_file_type_group e = ''image''} \<and>
          list_entities utc_modifier db limit library_ids start end
            = limit_rows limit (order_by_desc e_file_created_at q)"
    unfolding list_entities_def Let_def
    by (rule exI, rule conjI [OF _ refl]) (auto split: option.splits)
  then obtain q where q: "set q \<subseteq> {e \<in> set (entities db). e_file_type_group e = ''image''}"
    and le: "list_entities utc_modifier db limit library_ids start end
               = limit_rows limit (order_by_desc e_file_created_at q)"
    by blast
  have "sorted_wrt (\<lambda>x y. e_file_created_at y \<le> e_file_created_at x)
          (order_by_desc e_file_created_at q)"
    using sorted_sort_key [of "\<lambda>r. - e_file_created_at r" q]
    by (simp add: order_by_desc_def sorted_map)
  then have "sorted_wrt (\<lambda>x y. e_file_created_at y \<le> e_file_created_at x)
          (limit_rows limit (order_by_desc e_file_created_at q))"
    by (simp add: limit_rows_def)
  then have "sorted (rev (map e_file_created_at
               (limit_rows limit (order_by_desc e_file_created_at q))))"
    by (simp only: sorted_wrt_rev sorted_wrt_map)
  moreover have "set (limit_rows limit (order_by_desc e_file_created_at q)) \<subseteq> set q"
    by (auto simp: limit_rows_def order_by_desc_def dest: in_set_takeD)
  ultimately show ?thesis
    using q by (auto simp: le limit_rows_def)
qed

lemma of_char_digit_char: "d < 10 \<Longrightarrow> (of_char (digit_char d) :: nat) = 48 + d"
proof -
  assume "d < 10"
  then have "d \<in> {0, 1, 2, 3, 4, 5, 6, 7, 8, 9}" by auto
  then show ?thesis by (auto simp: digit_char_def)
qed

lemma digit_char_eq_iff:
  assumes "c < 10" "d < 10"
  shows "(digit_char c = digit_char d) = (c = d)"
  using of_char_digit_char [OF assms(1)] of_char_digit_char [OF assms(2)]
  by (metis add_left_cancel)

lemma text_le_snoc:
  assumes "length xs = length ys"
  shows "text_le (xs @ [c]) (ys @ [d])
           = (if xs = ys then c = d \<or> (of_char c :: nat) < of_char d else text_le xs ys)"
  using assms by (induction xs ys rule: list_induct2) auto

lemma text_le_refl: "text_le xs xs"
  by (induction xs) simp_all

lemma length_str_nat_pos: "0 < length (str_nat n)"
  by (subst str_nat.simps) simp

lemma str_nat_order:
  assumes "length (str_nat a) = length (str_nat b)"
  shows "(text_le (str_nat a) (str_nat b) = (a \<le> b)) \<and> ((str_nat a = str_nat b) = (a = b))"
  using assms
proof (induction a arbitrary: b rule: str_nat.induct)
  case (1 a)
  show ?case
  proof (cases "a < 10")
    case True
    then have a: "str_nat a = [digit_char a]" by (subst str_nat.simps) simp
    have "b < 10"
    proof (rule ccontr)
      assume "\<not> b < 10"
      then have "str_nat b = str_nat (b div 10) @ [digit_char (b mod 10)]"
        by (subst str_nat.simps) simp
      then have "1 < length (str_nat b)"
        using length_str_nat_pos [of "b div 10"] by simp
      with "1.prems" a show False by simp
    qed
    then have b: "str_nat b = [digit_char b]" by (subst str_nat.simps) simp
    show ?thesis
      using True \<open>b < 10\<close> of_char_digit_char [of a] of_char_digit_char [of b]
      by (auto simp: a b digit_char_eq_iff)
  next
    case False
    then have a: "str_nat a = str_nat (a div 10) @ [digit_char (a mod 10)]"
      by (subst str_nat.simps) simp
    have "\<not> b < 10"
    proof
      assume "b < 10"
      then have "str_nat b = [digit_char b]" by (subst str_nat.simps) simp
      moreover have "1 < length (str_nat a)"
        using a length_str_nat_pos [of "a div 10"] by simp
      ultimately show False using "1.prems" by simp
    qed
    then have b: "str_nat b = str_nat (b div 10) @ [digit_char (b mod 10)]"
      by (subst str_nat.simps) simp
    have len: "length (str_nat (a div 10)) = length (str_nat (b div 10))"
      using "1.prems" a b by simp
    note IH = "1.IH" [OF False len]
    have digits: "(digit_char (a mod 10) = digit_char (b mod 10)) = (a mod 10 = b mod 10)"
      "((of_char (digit_char (a mod 10)) :: nat) < of_char (digit_char (b mod 10)))
         = (a mod 10 < b mod 10)"
      by (simp_all add: digit_char_eq_iff of_char_digit_char)
    have split: "a = 10 * (a div 10) + a mod 10" "b = 10 * (b div 10) + b mod 10"
      "a mod 10 < 10" "b mod 10 < 10"
      by simp_all
    have le: "(a \<le> b) = (a div 10 < b div 10 \<or> (a div 10 = b div 10 \<and> a mod 10 \<le> b mod 10))"
      using split by linarith
    have eq: "(a = b) = (a div 10 = b div 10 \<and> a mod 10 = b mod 10)"
      by (metis split(1,2))
    show ?thesis
      unfolding a b using IH digits len
      by (auto simp: text_le_snoc le eq)
  qed
qed

text \<open>
  Where the text comparison does agree with the numbers: for non-negative times whose
  decimal strings have the same length, the text is between the bounds exactly when the
  time is. The bounds go wrong only across a change in the number of digits.
\<close>

lemma text_between_same_width:
  assumes "0 \<le> s" "0 \<le> c" "0 \<le> t"
    and "length (str s) = length (str c)" "length (str t) = length (str c)"
  shows "text_between (str c) (str s) (str t) = (s \<le> c \<and> c \<le> t)"
proof -
  have "str s = str_nat (nat s)" "str c = str_nat (nat c)" "str t = str_nat (nat t)"
    using assms(1-3) by (simp_all add: str_def)
  then show ?thesis
    using assms str_nat_order [of "nat s" "nat c"] str_nat_order [of "nat c" "nat t"]
    by (simp add: text_between_def nat_le_eq_zle)
qed

section \<open>Theorems: tags\<close>

lemma add_entity_tags_found:
  assumes "find (\<lambda>t. tag_name t = name) (tags db) = Some t"
  shows "add_entity_tags entity_id (name # names) db
           = add_entity_tags entity_id names
               (db\<lparr>entity_tags := entity_tags db @
                   [\<lparr>et_entity_id = entity_id, et_tag_id = tag_id t,
                     et_source = PLUGIN_GENERATED\<rparr>]\<rparr>)"
  using assms by (simp add: Let_def)

lemma add_entity_tags_new:
  assumes "find (\<lambda>t. tag_name t = name) (tags db) = None"
  shows "add_entity_tags entity_id (name # names) db
           = add_entity_tags entity_id names
               (db\<lparr>tags := tags db @ [\<lparr>tag_id = next_id (map tag_id (tags db)), tag_name = name\<rparr>],
                   entity_tags := entity_tags db @
                   [\<lparr>et_entity_id = entity_id, et_tag_id = next_id (map tag_id (tags db)),
                     et_source = PLUGIN_GENERATED\<rparr>]\<rparr>)"
  using assms by (simp add: Let_def)

lemma add_entity_tags_entities: "entities (add_entity_tags entity_id names db) = entities db"
proof (induction names arbitrary: db)
  case Nil
  show ?case by simp
next
  case (Cons name names)
  show ?case
    by (cases "find (\<lambda>t. tag_name t = name) (tags db)")
       (simp_all only: add_entity_tags_new add_entity_tags_found Cons.IH, simp_all)
qed

lemma add_entity_tags_metadata:
  "entity_metadata (add_entity_tags entity_id names db) = entity_metadata db"
proof (induction names arbitrary: db)
  case Nil
  show ?case by simp
next
  case (Cons name names)
  show ?case
    by (cases "find (\<lambda>t. tag_name t = name) (tags db)")
       (simp_all only: add_entity_tags_new add_entity_tags_found Cons.IH, simp_all)
qed


lemma image_2020_tables:
  "tags image_2020_db = []" "entity_tags image_2020_db = []"
  "entity_metadata image_2020_db = []"
  by (simp_all add: image_2020_db_def empty_db_def)

lemma get_entity_by_id_image_2020:
  "get_entity_by_id 1 image_2020_db = Some (example_entity 1 1 1600000000)"
  "get_entity_by_id 7 image_2020_db = None"
  by (simp_all add: get_entity_by_id_def image_2020_entities example_entity_fields)








text \<open>
  C10. \<open>update_entity_metadata_entries\<close> makes no not-found check: for every entity id that
  is absent from the store the call raises \<^verbatim>\<open>AttributeError\<close> (the access \<^verbatim>\<open>db_entity.id\<close> on
  \<^verbatim>\<open>None\<close>) and writes no metadata, whereas \<open>add_new_tags\<close> and \<open>update_entity_tags\<close> raise
  the not-found \<^verbatim>\<open>ValueError\<close>, which is a different exception.
\<close>

theorem update_entity_metadata_entries_absent_entity:
  assumes "get_entity_by_id entity_id db = None"
  shows "update_entity_metadata_entries entity_id updated_metadata now db = Inl AttributeError \<and>
         entity_metadata
           (store_after (update_entity_metadata_entries entity_id updated_metadata now db) db)
           = entity_metadata db \<and>
         add_new_tags entity_id tag_names now db = Inl (not_found entity_id) \<and>
         update_entity_tags entity_id tag_names now db = Inl (not_found entity_id) \<and>
         not_found entity_id \<noteq> AttributeError"
  using assms
  by (simp add: update_entity_metadata_entries_def add_new_tags_def update_entity_tags_def
       store_after_def not_found_def)

theorem update_entity_metadata_entries_absent_entity_witness:
  "update_entity_metadata_entries 7
     [\<lparr>mp_key = ''ocr'', mp_value = ''text'', mp_source = Some ''ocr_plugin'',
       mp_data_type = ''text''\<rparr>] 5 image_2020_db = Inl AttributeError \<and>
   add_new_tags 7 [''cat''] 5 image_2020_db = Inl (ValueError ''Entity with id 7 not found'') \<and>
   update_entity_tags 7 [''cat''] 5 image_2020_db
     = Inl (ValueError ''Entity with id 7 not found'')"
  using update_entity_metadata_entries_absent_entity
          [OF get_entity_by_id_image_2020(2),
           of "[\<lparr>mp_key = ''ocr'', mp_value = ''text'', mp_source = Some ''ocr_plugin'',
                 mp_data_type = ''text''\<rparr>]" 5 "[''cat'']"]
  by (simp add: not_found_def str_def str_nat.simps digit_char_def)











lemma get_entity_by_id_Some:
  assumes "get_entity_by_id entity_id db = Some db_entity"
  shows "e_id db_entity = entity_id \<and> entity_id \<in> e_id ` set (entities db)"
proof -
  from assms obtain i where "i < length (entities db)" "e_id (entities db ! i) = entity_id"
    "db_entity = entities db ! i"
    by (auto simp: get_entity_by_id_def find_Some_iff)
  then show ?thesis
    using nth_mem [of i "entities db"] by force
qed










lemma tag_tables_ok_empty: "tag_tables_ok empty_db"
  by (simp add: tag_tables_ok_def empty_db_def)




section \<open>Theorems: metadata\<close>


lemma existing_metadata_dict_None:
  "(existing_metadata_dict e rows k = None)
     = (filter (\<lambda>r. em_entity_id r = e \<and> em_key r = k) rows = [])"
proof -
  let ?pairs = "map (\<lambda>(i, r). (em_key r, i))
                  (filter (\<lambda>(i, r). em_entity_id r = e) (enumerate 0 rows))"
  have "(k \<in> fst ` set ?pairs) = (\<exists>r \<in> set rows. em_entity_id r = e \<and> em_key r = k)"
  proof
    assume "k \<in> fst ` set ?pairs"
    then obtain i r where "(i, r) \<in> set (enumerate 0 rows)" "em_entity_id r = e" "em_key r = k"
      by auto
    then show "\<exists>r \<in> set rows. em_entity_id r = e \<and> em_key r = k"
      by (auto simp: in_set_enumerate_eq)
  next
    assume "\<exists>r \<in> set rows. em_entity_id r = e \<and> em_key r = k"
    then obtain i where i: "i < length rows" "em_entity_id (rows ! i) = e" "em_key (rows ! i) = k"
      by (auto simp: in_set_conv_nth)
    then have "(i, rows ! i) \<in> set (enumerate 0 rows)"
      by (simp add: in_set_enumerate_eq)
    with i have "(k, i) \<in> set ?pairs" by force
    then show "k \<in> fst ` set ?pairs" by force
  qed
  then show ?thesis
    unfolding existing_metadata_dict_def map_of_eq_None_iff set_rev
    by (auto simp: filter_empty_conv)
qed



















text \<open>
  When the entity exists, the call returns exactly when every write without a source
  meets an entry of its key; a write without a source of a key the entity does not have
  yet is refused by the store, and the call raises with nothing written.
\<close>

lemma update_entity_metadata_entries_returns:
  assumes "get_entity_by_id entity_id db = Some db_entity"
  shows "update_entity_metadata_entries entity_id ms now db
           = (if \<forall>m \<in> set ms. mp_source m = None \<longrightarrow> metadata_rows db entity_id (mp_key m) \<noteq> []
              then Inr (db\<lparr>entity_metadata :=
                             upsert_metadata (existing_metadata_dict entity_id (entity_metadata db))
                               entity_id ms (entity_metadata db),
                           entities := set_last_scan_at entity_id now (entities db)\<rparr>)
              else Inl IntegrityError)"
proof -
  have id: "e_id db_entity = entity_id" using get_entity_by_id_Some [OF assms] by simp
  have "list_all storable
          (map (insert_metadata_row entity_id)
             (filter (\<lambda>m. existing_metadata_dict entity_id (entity_metadata db) (mp_key m) = None)
                ms))
          = (\<forall>m \<in> set ms. mp_source m = None \<longrightarrow> metadata_rows db entity_id (mp_key m) \<noteq> [])"
    by (auto simp: list_all_iff storable_def insert_metadata_row_def
          existing_metadata_dict_None metadata_rows_def)
  then show ?thesis
    using assms id by (simp add: update_entity_metadata_entries_def Let_def)
qed



lemma ocr_db_1_tables:
  "entities ocr_db_1 = [(example_entity 1 1 1600000000)\<lparr>e_last_scan_at := 5\<rparr>]"
  "entity_metadata ocr_db_1
     = [\<lparr>em_entity_id = 1, em_key = ''ocr'', em_value = ''first'',
         em_source = Some ''ocr_plugin'', em_source_type = Some PLUGIN_GENERATED,
         em_data_type = ''text''\<rparr>]"
  by (simp_all add: ocr_db_1_def)

lemma ocr_db_1_entity:
  "get_entity_by_id 1 ocr_db_1
     = Some ((example_entity 1 1 1600000000)\<lparr>e_last_scan_at := 5\<rparr>)"
  by (simp add: get_entity_by_id_def ocr_db_1_tables example_entity_fields)

lemma existing_metadata_dict_examples:
  "existing_metadata_dict 1 [] k = None"
  "existing_metadata_dict 1
     [\<lparr>em_entity_id = 1, em_key = ''ocr'', em_value = ''first'',
       em_source = Some ''ocr_plugin'', em_source_type = Some PLUGIN_GENERATED,
       em_data_type = ''text''\<rparr>] ''ocr'' = Some 0"
  by (simp_all add: existing_metadata_dict_def)





text \<open>A first write of a key that declares no source is refused by the store.\<close>

lemma sourceless_insert_raises:
  "update_entity_metadata_entries 1 [ocr_write_2] 5 image_2020_db = Inl IntegrityError"
  by (simp add: update_entity_metadata_entries_def get_entity_by_id_image_2020
        example_entity_fields image_2020_tables existing_metadata_dict_examples
        insert_metadata_row_def storable_def ocr_write_2_def Let_def)

text \<open>
  A later call may name the key twice: both writes update the one entry, the second
  keeps the source the first has just set.
\<close>

lemma later_call_names_key_twice:
  "map em_value
     (metadata_rows
        (store_after (update_entity_metadata_entries 1 [ocr_write_3, ocr_write_2] 6 ocr_db_1)
           ocr_db_1) 1 ''ocr'') = [''second''] \<and>
   map em_source
     (metadata_rows
        (store_after (update_entity_metadata_entries 1 [ocr_write_3, ocr_write_2] 6 ocr_db_1)
           ocr_db_1) 1 ''ocr'') = [Some ''vlm_plugin'']"
  by (simp add: update_entity_metadata_entries_def ocr_db_1_entity example_entity_fields
        ocr_db_1_tables existing_metadata_dict_examples update_metadata_row_def
        store_after_def metadata_rows_def ocr_write_2_def ocr_write_3_def Let_def)

end
